theory Spec2Isabelle
  imports Main "HOL-Library.AList" "HOL-Library.Sublist"
begin

section \<open>Data model\<close>

text \<open>
  JSON values as \<^verbatim>\<open>json.load\<close> returns them. A JSON object is an association list: a
  Python dict keeps insertion order, assigning to an existing key keeps its position and a
  new key goes to the end, which is what \<^const>\<open>AList.update\<close> does. Numbers are integers
  (store files holding other numbers are outside the model).
\<close>

datatype json =
    JNull
  | JBool bool
  | JNum int
  | JStr string
  | JList "json list"
  | JObj "(string \<times> json) list"

text \<open>
  One search result of the provider: the short identifier (\<^verbatim>\<open>paper.get_short_id()\<close>) and
  the five values \<^verbatim>\<open>search_papers\<close> reads off the result object (the authors' names,
  the publication date already as \<^verbatim>\<open>str(paper.published.date())\<close>).
\<close>

record paper =
  short_id :: string
  title :: string
  authors :: "string list"
  summary :: string
  pdf_url :: string
  published :: string

definition paper_json :: "paper \<Rightarrow> json" where
  "paper_json p = JObj
     [(''title'', JStr (title p)),
      (''authors'', JList (map JStr (authors p))),
      (''summary'', JStr (summary p)),
      (''pdf_url'', JStr (pdf_url p)),
      (''published'', JStr (published p))]"

text \<open>
  Exceptions of the program. The \<^verbatim>\<open>OSError\<close> subclasses that no handler of the source
  tells apart (\<^verbatim>\<open>FileExistsError\<close>, \<^verbatim>\<open>NotADirectoryError\<close>, \<^verbatim>\<open>IsADirectoryError\<close>) are
  one constructor; \<^verbatim>\<open>FileNotFoundError\<close> is its own, since two handlers catch it.
  \<^verbatim>\<open>UnicodeDecodeError\<close> is the error of reading a file that is not text; it is a
  \<^verbatim>\<open>ValueError\<close> but not a \<^verbatim>\<open>JSONDecodeError\<close>.
\<close>

datatype error =
    FileNotFoundError
  | OSError
  | UnicodeDecodeError
  | TypeError
  | KeyError
  | AttributeError
  | IndexError
  | ProviderError
  | TransportError

text \<open>
  Argument values of a tool call: the two JSON types the tool schemas declare
  (\<^verbatim>\<open>"string"\<close> and \<^verbatim>\<open>"integer"\<close>). \<^verbatim>\<open>tool_args\<close> is a dict from names to them.
\<close>

datatype argval = AStr string | AInt int

type_synonym tool_args = "(string \<times> argval) list"

text \<open>
  Content blocks of a model response (\<^verbatim>\<open>content.type\<close> is \<^verbatim>\<open>'text'\<close>,
  \<^verbatim>\<open>'tool_use'\<close> with \<^verbatim>\<open>id\<close>, \<^verbatim>\<open>name\<close>, \<^verbatim>\<open>input\<close>, or anything else), and the
  messages of a request as they go over the wire.
\<close>

datatype block =
    TextBlock string
  | ToolUse string string tool_args
  | OtherBlock

text \<open>
  Strings the tools return: a string given character by character, or the text
  \<^verbatim>\<open>json.dumps(v, indent=2)\<close> of a JSON value, which is kept as that value.
\<close>

datatype str = Str string | JsonDumps json

datatype message =
    UserText string
  | AssistantTurn "block list"
  | ToolResult string str

text \<open>
  What the program calls and does not define: the arXiv search (query and
  \<^verbatim>\<open>max_results\<close> to the results or a failure) and \<^verbatim>\<open>client.messages.create\<close> (the number
  of calls made before, and the messages sent, to the response's content or a failure).
\<close>

record env =
  arxiv_results :: "string \<Rightarrow> argval \<Rightarrow> error + paper list"
  llm_create :: "nat \<Rightarrow> message list \<Rightarrow> error + block list"

subsection \<open>The file system\<close>

text \<open>
  A file is represented by what reading it as text and \<^verbatim>\<open>json.load\<close> make of it: bytes
  that do not decode, text that is not JSON, or the JSON value it holds. \<^verbatim>\<open>json.dump\<close>
  of a value writes a file that holds that value.
\<close>

datatype content = Undecodable | Malformed | Json json

datatype node = Dir | File content

text \<open>
  Absolute paths are lists of components from the root. The file system is an association
  list from paths to nodes (no symbolic links, no permissions); the order of the list
  is the order in which \<^verbatim>\<open>os.listdir\<close> enumerates, which is arbitrary.
\<close>

type_synonym path = "string list"

type_synonym fs = "(path \<times> node) list"

text \<open>
  What is printed: a text as it is, the three formatted lines
  \<^verbatim>\<open>Results are saved in: ...\<close>, \<^verbatim>\<open>Error reading ...: ...\<close> and
  \<^verbatim>\<open>Calling tool ... with args ...\<close> by what they are formatted from, the prompt of
  \<^verbatim>\<open>input\<close>, and the line \<^verbatim>\<open>Error: ...\<close> of the shell by the exception it reports.
\<close>

datatype out =
    Text string
  | SavedIn string
  | ErrorReading string
  | CallingTool string tool_args
  | Prompt
  | ShellError error

record world =
  cwd :: path
  files :: fs
  stdout :: "out list"

definition node_at :: "fs \<Rightarrow> path \<Rightarrow> node option" where
  "node_at f p = (if p = [] then Some Dir else map_of f p)"

definition isdir :: "fs \<Rightarrow> path \<Rightarrow> bool" where
  "isdir f p = (node_at f p = Some Dir)"

definition isfile :: "fs \<Rightarrow> path \<Rightarrow> bool" where
  "isfile f p = (case node_at f p of Some (File c) \<Rightarrow> True | _ \<Rightarrow> False)"

definition listdir :: "fs \<Rightarrow> path \<Rightarrow> error + string list" where
  "listdir f d =
     (case node_at f d of
        None \<Rightarrow> Inl FileNotFoundError
      | Some (File c) \<Rightarrow> Inl OSError
      | Some Dir \<Rightarrow>
          Inr (map last (filter (\<lambda>p. p \<noteq> [] \<and> butlast p = d) (remdups (map fst f)))))"

subsection \<open>Path strings\<close>

definition PAPER_DIR :: string where
  "PAPER_DIR = ''papers''"

definition papers_info_json :: string where
  "papers_info_json = ''papers_info.json''"

text \<open>\<^verbatim>\<open>os.path.join\<close> of two strings (posixpath).\<close>

definition path_join :: "string \<Rightarrow> string \<Rightarrow> string" where
  "path_join a b =
     (if b \<noteq> [] \<and> hd b = CHR ''/'' then b
      else if a = [] \<or> last a = CHR ''/'' then a @ b
      else a @ ''/'' @ b)"

fun split_slash :: "string \<Rightarrow> string list" where
  "split_slash [] = [[]]"
| "split_slash (c # cs) =
     (if c = CHR ''/'' then [] # split_slash cs
      else (case split_slash cs of
              [] \<Rightarrow> [[c]]
            | w # ws \<Rightarrow> (c # w) # ws))"

definition is_abs :: "string \<Rightarrow> bool" where
  "is_abs s = (s \<noteq> [] \<and> hd s = CHR ''/'')"

text \<open>
  \<^verbatim>\<open>os.makedirs(path, exist_ok=True)\<close>, component by component from a directory that
  exists: an empty component and \<^verbatim>\<open>.\<close> stay, \<^verbatim>\<open>..\<close> goes to the parent, a missing
  directory is created, an existing one is entered, and a regular file in the way is an
  \<^verbatim>\<open>OSError\<close>. It returns the directory the path names, and the file system with the
  directories made so far, which stay when it raises.
\<close>

fun makedirs_from :: "fs \<Rightarrow> path \<Rightarrow> string list \<Rightarrow> (error + path) \<times> fs" where
  "makedirs_from f cur [] = (Inr cur, f)"
| "makedirs_from f cur (c # cs) =
     (if c = [] \<or> c = ''.'' then makedirs_from f cur cs
      else if c = ''..'' then makedirs_from f (butlast cur) cs
      else (case node_at f (cur @ [c]) of
              None \<Rightarrow> makedirs_from (f @ [(cur @ [c], Dir)]) (cur @ [c]) cs
            | Some Dir \<Rightarrow> makedirs_from f (cur @ [c]) cs
            | Some (File x) \<Rightarrow> (Inl OSError, f)))"

definition makedirs :: "world \<Rightarrow> string \<Rightarrow> (error + path) \<times> fs" where
  "makedirs w s =
     makedirs_from (files w) (if is_abs s then [] else cwd w) (split_slash s)"

section \<open>Tool implementations\<close>

subsection \<open>\<^verbatim>\<open>search_papers\<close>\<close>

definition lower_char :: "char \<Rightarrow> char" where
  "lower_char c =
     (let n = (of_char c :: nat)
      in if 65 \<le> n \<and> n \<le> 90 then char_of (n + 32) else c)"

text \<open>\<^verbatim>\<open>topic.lower().replace(" ", "_")\<close>, on ASCII strings.\<close>

definition normalize_topic :: "string \<Rightarrow> string" where
  "normalize_topic t =
     map (\<lambda>c. if c = CHR '' '' then CHR ''_'' else c) (map lower_char t)"

text \<open>
  The \<^verbatim>\<open>try\<close> block that loads the existing store: a missing file and text that is
  not JSON both give the empty dict; a directory in the file's place and bytes that do not
  decode raise.
\<close>

definition load_existing :: "fs \<Rightarrow> path \<Rightarrow> error + json" where
  "load_existing f p =
     (case node_at f p of
        None \<Rightarrow> Inr (JObj [])
      | Some Dir \<Rightarrow> Inl OSError
      | Some (File Undecodable) \<Rightarrow> Inl UnicodeDecodeError
      | Some (File Malformed) \<Rightarrow> Inr (JObj [])
      | Some (File (Json v)) \<Rightarrow> Inr v)"

text \<open>
  The \<^verbatim>\<open>for paper in papers\<close> loop: \<^verbatim>\<open>papers_info[paper_id] = {...}\<close> needs a dict;
  on any other JSON value the item assignment raises \<^verbatim>\<open>TypeError\<close>.
\<close>

fun add_papers :: "json \<Rightarrow> string list \<Rightarrow> paper list \<Rightarrow> error + (json \<times> string list)" where
  "add_papers info ids [] = Inr (info, ids)"
| "add_papers info ids (p # ps) =
     (case info of
        JObj al \<Rightarrow>
          add_papers (JObj (AList.update (short_id p) (paper_json p) al))
            (ids @ [short_id p]) ps
      | _ \<Rightarrow> Inl TypeError)"

text \<open>
  \<^verbatim>\<open>search_papers\<close>. The provider's answer \<open>res\<close> is an argument: the result generator
  is consumed only by the loop, so a provider failure comes after the directories were
  made and the old store was read, and before anything is written. The world is returned
  with the outcome: what was done before an exception stays done.
\<close>

definition search_papers ::
  "world \<Rightarrow> string \<Rightarrow> error + paper list \<Rightarrow> (error + string list) \<times> world" where
  "search_papers w topic res =
     (let path = path_join PAPER_DIR (normalize_topic topic);
          file_path = path_join path papers_info_json
      in case makedirs w path of
           (Inl e, f1) \<Rightarrow> (Inl e, w\<lparr>files := f1\<rparr>)
         | (Inr d, f1) \<Rightarrow>
             (case load_existing f1 (d @ [papers_info_json]) of
                Inl e \<Rightarrow> (Inl e, w\<lparr>files := f1\<rparr>)
              | Inr info \<Rightarrow>
                  (case res of
                     Inl e \<Rightarrow> (Inl e, w\<lparr>files := f1\<rparr>)
                   | Inr ps \<Rightarrow>
                       (case add_papers info [] ps of
                          Inl e \<Rightarrow> (Inl e, w\<lparr>files := f1\<rparr>)
                        | Inr (info', ids) \<Rightarrow>
                            (Inr ids,
                             w\<lparr>files := AList.update (d @ [papers_info_json]) (File (Json info')) f1,
                               stdout := stdout w @ [SavedIn file_path]\<rparr>)))))"

subsection \<open>\<^verbatim>\<open>extract_info\<close>\<close>

text \<open>
  \<^verbatim>\<open>paper_id in papers_info\<close>: key membership in a dict, element membership in a list
  (where \<^verbatim>\<open>True == 1\<close> and \<^verbatim>\<open>False == 0\<close>), substring test in a string, and
  \<^verbatim>\<open>TypeError\<close> on a number, a boolean and \<^verbatim>\<open>None\<close>, and on an integer in a string.
\<close>

fun py_contains :: "json \<Rightarrow> argval \<Rightarrow> error + bool" where
  "py_contains (JObj al) (AStr s) = Inr (s \<in> set (map fst al))"
| "py_contains (JObj al) (AInt n) = Inr False"
| "py_contains (JList xs) (AStr s) = Inr (JStr s \<in> set xs)"
| "py_contains (JList xs) (AInt n) =
     Inr (JNum n \<in> set xs \<or> (n = 1 \<and> JBool True \<in> set xs) \<or> (n = 0 \<and> JBool False \<in> set xs))"
| "py_contains (JStr t) (AStr s) = Inr (sublist s t)"
| "py_contains (JStr t) (AInt n) = Inl TypeError"
| "py_contains JNull k = Inl TypeError"
| "py_contains (JBool b) k = Inl TypeError"
| "py_contains (JNum i) k = Inl TypeError"

text \<open>
  Subscripting a list or a string with an integer: \<open>i\<close> from the front when it is not
  negative, \<open>length + i\<close> for \<open>i\<close> below zero, \<^verbatim>\<open>IndexError\<close> outside.
\<close>

definition py_index :: "'a list \<Rightarrow> int \<Rightarrow> error + 'a" where
  "py_index xs i =
     (if 0 \<le> i \<and> i < int (length xs) then Inr (xs ! nat i)
      else if i < 0 \<and> - int (length xs) \<le> i then Inr (xs ! nat (int (length xs) + i))
      else Inl IndexError)"

text \<open>\<^verbatim>\<open>papers_info[paper_id]\<close>.\<close>

fun py_getitem :: "json \<Rightarrow> argval \<Rightarrow> error + json" where
  "py_getitem (JObj al) (AStr s) =
     (case map_of al s of None \<Rightarrow> Inl KeyError | Some v \<Rightarrow> Inr v)"
| "py_getitem (JObj al) (AInt n) = Inl KeyError"
| "py_getitem (JList xs) (AStr s) = Inl TypeError"
| "py_getitem (JList xs) (AInt n) = py_index xs n"
| "py_getitem (JStr t) (AStr s) = Inl TypeError"
| "py_getitem (JStr t) (AInt n) =
     (case py_index t n of Inl e \<Rightarrow> Inl e | Inr c \<Rightarrow> Inr (JStr [c]))"
| "py_getitem JNull k = Inl TypeError"
| "py_getitem (JBool b) k = Inl TypeError"
| "py_getitem (JNum i) k = Inl TypeError"

text \<open>
  The loop over \<^verbatim>\<open>os.listdir(PAPER_DIR)\<close>. The result is \<open>Some\<close> of the string returned
  from inside the loop, or \<open>None\<close> when the loop ends; the lines printed are threaded
  through. Text that is not JSON is reported and skipped; bytes that do not decode and the
  \<^verbatim>\<open>TypeError\<close>s of the membership test are not caught.
\<close>

fun scan_items ::
  "fs \<Rightarrow> path \<Rightarrow> argval \<Rightarrow> out list \<Rightarrow> string list \<Rightarrow> (error + str option) \<times> out list" where
  "scan_items f root k os [] = (Inr None, os)"
| "scan_items f root k os (item # items) =
     (if isdir f (root @ [item]) \<and> isfile f (root @ [item, papers_info_json]) then
        (case node_at f (root @ [item, papers_info_json]) of
           Some (File Undecodable) \<Rightarrow> (Inl UnicodeDecodeError, os)
         | Some (File Malformed) \<Rightarrow>
             scan_items f root k
               (os @ [ErrorReading (path_join (path_join PAPER_DIR item) papers_info_json)]) items
         | Some (File (Json v)) \<Rightarrow>
             (case py_contains v k of
                Inl x \<Rightarrow> (Inl x, os)
              | Inr True \<Rightarrow>
                  (case py_getitem v k of
                     Inl x \<Rightarrow> (Inl x, os)
                   | Inr r \<Rightarrow> (Inr (Some (JsonDumps r)), os))
              | Inr False \<Rightarrow> scan_items f root k os items)
         | _ \<Rightarrow> scan_items f root k os items)
      else scan_items f root k os items)"

text \<open>\<^verbatim>\<open>str\<close> of an integer, as the f-string formats it: decimal digits, with a sign.\<close>

fun decimal :: "nat \<Rightarrow> string" where
  "decimal n =
     (if n < 10 then [char_of (48 + n)]
      else decimal (n div 10) @ [char_of (48 + n mod 10)])"

definition py_str :: "argval \<Rightarrow> string" where
  "py_str k =
     (case k of
        AStr s \<Rightarrow> s
      | AInt n \<Rightarrow> (if n < 0 then CHR ''-'' # decimal (nat (- n)) else decimal (nat n)))"

definition not_found_message :: "argval \<Rightarrow> string" where
  "not_found_message k =
     ''There's no saved information related to paper '' @ py_str k @ ''.''"

definition extract_info :: "world \<Rightarrow> argval \<Rightarrow> (error + str) \<times> world" where
  "extract_info w paper_id =
     (case listdir (files w) (cwd w @ [PAPER_DIR]) of
        Inl x \<Rightarrow> (Inl x, w)
      | Inr items \<Rightarrow>
          (case scan_items (files w) (cwd w @ [PAPER_DIR]) paper_id (stdout w) items of
             (Inl x, os) \<Rightarrow> (Inl x, w\<lparr>stdout := os\<rparr>)
           | (Inr (Some s), os) \<Rightarrow> (Inr s, w\<lparr>stdout := os\<rparr>)
           | (Inr None, os) \<Rightarrow> (Inr (Str (not_found_message paper_id)), w\<lparr>stdout := os\<rparr>)))"

section \<open>Tool dispatcher\<close>

text \<open>
  What a tool function returns to \<^verbatim>\<open>execute_tool\<close>: \<^verbatim>\<open>None\<close>, a list of strings, a dict
  or a string.
\<close>

datatype pyval = PNone | PList "string list" | PDict "(string \<times> json) list" | PStr str

text \<open>
  A registered function, called as \<^verbatim>\<open>f(**tool_args)\<close>: a missing required argument and
  an argument the function does not have are a \<^verbatim>\<open>TypeError\<close>. A topic that is not a string
  has no \<^verbatim>\<open>lower\<close>.
\<close>

type_synonym tool = "env \<Rightarrow> world \<Rightarrow> tool_args \<Rightarrow> (error + pyval) \<times> world"

definition max_results_arg :: "tool_args \<Rightarrow> argval" where
  "max_results_arg args = (case map_of args ''max_results'' of None \<Rightarrow> AInt 5 | Some m \<Rightarrow> m)"

definition call_search_papers :: tool where
  "call_search_papers e w args =
     (if \<not> list_all (\<lambda>k. k = ''topic'' \<or> k = ''max_results'') (map fst args) then (Inl TypeError, w)
      else (case map_of args ''topic'' of
              None \<Rightarrow> (Inl TypeError, w)
            | Some (AInt n) \<Rightarrow> (Inl AttributeError, w)
            | Some (AStr topic) \<Rightarrow>
                (case search_papers w topic (arxiv_results e topic (max_results_arg args)) of
                   (Inl x, w') \<Rightarrow> (Inl x, w')
                 | (Inr ids, w') \<Rightarrow> (Inr (PList ids), w'))))"

definition call_extract_info :: tool where
  "call_extract_info e w args =
     (if \<not> list_all (\<lambda>k. k = ''paper_id'') (map fst args) then (Inl TypeError, w)
      else (case map_of args ''paper_id'' of
              None \<Rightarrow> (Inl TypeError, w)
            | Some k \<Rightarrow>
                (case extract_info w k of
                   (Inl x, w') \<Rightarrow> (Inl x, w')
                 | (Inr s, w') \<Rightarrow> (Inr (PStr s), w'))))"

definition mapping_tool_function :: "string \<Rightarrow> tool option" where
  "mapping_tool_function name =
     (if name = ''search_papers'' then Some call_search_papers
      else if name = ''extract_info'' then Some call_extract_info
      else None)"

definition no_results :: string where
  "no_results = ''The operation completed but didn't return any results.''"

fun comma_join :: "string list \<Rightarrow> string" where
  "comma_join [] = []"
| "comma_join [x] = x"
| "comma_join (x # y # zs) = x @ '', '' @ comma_join (y # zs)"

text \<open>
  \<^verbatim>\<open>execute_tool\<close>; the global \<^verbatim>\<open>mapping_tool_function\<close> it reads is its first argument.
\<close>

definition execute_tool ::
  "(string \<Rightarrow> tool option) \<Rightarrow> env \<Rightarrow> world \<Rightarrow> string \<Rightarrow> tool_args \<Rightarrow> (error + str) \<times> world" where
  "execute_tool registry e w tool_name tool_args =
     (case registry tool_name of
        None \<Rightarrow> (Inl KeyError, w)
      | Some f \<Rightarrow>
          (case f e w tool_args of
             (Inl x, w') \<Rightarrow> (Inl x, w')
           | (Inr PNone, w') \<Rightarrow> (Inr (Str no_results), w')
           | (Inr (PList xs), w') \<Rightarrow> (Inr (Str (comma_join xs)), w')
           | (Inr (PDict al), w') \<Rightarrow> (Inr (JsonDumps (JObj al)), w')
           | (Inr (PStr s), w') \<Rightarrow> (Inr s, w')))"

section \<open>Chatbot core\<close>

text \<open>
  The list \<^verbatim>\<open>messages\<close> of \<^verbatim>\<open>process_query\<close>. An assistant message holds the list
  object \<^verbatim>\<open>assistant_content\<close> itself, not a copy: it is a reference into the store
  \<open>buffers\<close>, and a block appended to the list later shows in every message that holds it.
\<close>

datatype hmsg = HUser string | HAssistant nat | HResult string str

text \<open>
  What lasts from one query to the next: the world, and two logs kept for the properties
  below, the messages of every model call made and, for every tool run, the identifier of
  its request and the messages as they were when it ran.
\<close>

record session =
  world_of :: world
  sent :: "message list list"
  runs :: "(string \<times> message list) list"

text \<open>
  The state of one \<^verbatim>\<open>process_query\<close>: the world and the logs, the local variables
  \<^verbatim>\<open>messages\<close>, \<^verbatim>\<open>response\<close> (its content) and \<^verbatim>\<open>process_query\<close> (\<open>running\<close>), the store
  of the \<^verbatim>\<open>assistant_content\<close> lists and the index \<open>cur_buf\<close> of the current one.
\<close>

record driver =
  dworld :: world
  requests :: "message list list"
  tool_runs :: "(string \<times> message list) list"
  messages :: "hmsg list"
  buffers :: "nat \<Rightarrow> block list"
  cur_buf :: nat
  response :: "block list"
  running :: bool

definition wire :: "(nat \<Rightarrow> block list) \<Rightarrow> hmsg \<Rightarrow> message" where
  "wire bufs m =
     (case m of
        HUser q \<Rightarrow> UserText q
      | HAssistant n \<Rightarrow> AssistantTurn (bufs n)
      | HResult i s \<Rightarrow> ToolResult i s)"

definition sent_messages :: "driver \<Rightarrow> message list" where
  "sent_messages d = map (wire (buffers d)) (messages d)"

definition print_line :: "out \<Rightarrow> driver \<Rightarrow> driver" where
  "print_line x d = d\<lparr>dworld := (dworld d)\<lparr>stdout := stdout (dworld d) @ [x]\<rparr>\<rparr>"

definition buffer_append :: "block \<Rightarrow> driver \<Rightarrow> driver" where
  "buffer_append b d = d\<lparr>buffers := (buffers d)(cur_buf d := buffers d (cur_buf d) @ [b])\<rparr>"

text \<open>\<^verbatim>\<open>client.messages.create\<close> with the messages as they are now.\<close>

definition messages_create :: "env \<Rightarrow> driver \<Rightarrow> (error + block list) \<times> driver" where
  "messages_create e d =
     (llm_create e (length (requests d)) (sent_messages d),
      d\<lparr>requests := requests d @ [sent_messages d]\<rparr>)"

text \<open>
  The \<^verbatim>\<open>for\<close> loop over the blocks. \<^verbatim>\<open>len(response.content)\<close> reads the variable
  \<^verbatim>\<open>response\<close>, which a tool call earlier in the same loop has rebound, while the loop
  goes on over the blocks of the response it started with. \<open>before_tool\<close> is the
  \<^verbatim>\<open>tool_use\<close> branch up to the call of \<^verbatim>\<open>execute_tool\<close>, \<open>after_tool\<close> the append of
  the result, \<open>on_response\<close> the test after the new model call.
\<close>

definition on_text :: "string \<Rightarrow> driver \<Rightarrow> driver" where
  "on_text t d =
     (let d1 = buffer_append (TextBlock t) (print_line (Text t) d)
      in if length (response d1) = 1 then d1\<lparr>running := False\<rparr> else d1)"

definition on_response :: "block list \<Rightarrow> driver \<Rightarrow> driver" where
  "on_response resp d =
     (case resp of
        [TextBlock t] \<Rightarrow> (print_line (Text t) (d\<lparr>response := resp\<rparr>))\<lparr>running := False\<rparr>
      | _ \<Rightarrow> d\<lparr>response := resp\<rparr>)"

definition before_tool :: "string \<Rightarrow> string \<Rightarrow> tool_args \<Rightarrow> driver \<Rightarrow> driver" where
  "before_tool tool_id tool_name tool_args d =
     (let d1 = buffer_append (ToolUse tool_id tool_name tool_args) d;
          d2 = d1\<lparr>messages := messages d1 @ [HAssistant (cur_buf d1)]\<rparr>;
          d3 = print_line (CallingTool tool_name tool_args) d2
      in d3\<lparr>tool_runs := tool_runs d3 @ [(tool_id, sent_messages d3)]\<rparr>)"

definition after_tool :: "string \<Rightarrow> str \<Rightarrow> world \<Rightarrow> driver \<Rightarrow> driver" where
  "after_tool tool_id result w d =
     d\<lparr>dworld := w, messages := messages d @ [HResult tool_id result]\<rparr>"

fun for_content :: "env \<Rightarrow> driver \<Rightarrow> block list \<Rightarrow> error option \<times> driver" where
  "for_content e d [] = (None, d)"
| "for_content e d (TextBlock t # rest) = for_content e (on_text t d) rest"
| "for_content e d (ToolUse tool_id tool_name tool_args # rest) =
     (case execute_tool mapping_tool_function e
             (dworld (before_tool tool_id tool_name tool_args d)) tool_name tool_args of
        (Inl x, w) \<Rightarrow> (Some x, (before_tool tool_id tool_name tool_args d)\<lparr>dworld := w\<rparr>)
      | (Inr result, w) \<Rightarrow>
          (case messages_create e
                  (after_tool tool_id result w (before_tool tool_id tool_name tool_args d)) of
             (Inl x, d') \<Rightarrow> (Some x, d')
           | (Inr resp, d') \<Rightarrow> for_content e (on_response resp d') rest))"
| "for_content e d (OtherBlock # rest) = for_content e d rest"

text \<open>
  The \<^verbatim>\<open>while process_query\<close> loop; each round starts a new \<^verbatim>\<open>assistant_content\<close>. A
  response that never ends it (no tool call and not one text block alone) is gone over
  again and again: the loop does not return then.
\<close>

partial_function (option) while_process :: "env \<Rightarrow> driver \<Rightarrow> (error option \<times> driver) option" where
  "while_process e d =
     (if running d then
        (case for_content e (d\<lparr>cur_buf := Suc (cur_buf d), buffers := (buffers d)(Suc (cur_buf d) := [])\<rparr>) (response d) of
           (Some x, d') \<Rightarrow> Some (Some x, d')
         | (None, d') \<Rightarrow> while_process e d')
      else Some (None, d))"

declare while_process.simps [code]

definition process_query :: "env \<Rightarrow> session \<Rightarrow> string \<Rightarrow> (error option \<times> driver) option" where
  "process_query e s query =
     (let d = \<lparr>dworld = world_of s, requests = sent s, tool_runs = runs s,
                messages = [HUser query], buffers = (\<lambda>n. []), cur_buf = 0, response = [], running = True\<rparr>
      in case messages_create e d of
           (Inl x, d') \<Rightarrow> Some (Some x, d')
         | (Inr resp, d') \<Rightarrow> while_process e (d'\<lparr>response := resp\<rparr>))"






section \<open>Observations on the driver\<close>

text \<open>
  The blocks of a response that are no tool call: the text blocks among them, the lines
  they print, and what the \<^verbatim>\<open>for\<close> loop does with them.
\<close>

definition is_tool_use :: "block \<Rightarrow> bool" where
  "is_tool_use b = (case b of ToolUse i n a \<Rightarrow> True | _ \<Rightarrow> False)"

fun text_blocks :: "block list \<Rightarrow> block list" where
  "text_blocks [] = []"
| "text_blocks (TextBlock t # bs) = TextBlock t # text_blocks bs"
| "text_blocks (b # bs) = text_blocks bs"

fun printed :: "block list \<Rightarrow> out list" where
  "printed [] = []"
| "printed (TextBlock t # bs) = Text t # printed bs"
| "printed (b # bs) = printed bs"

fun on_blocks :: "block list \<Rightarrow> driver \<Rightarrow> driver" where
  "on_blocks [] d = d"
| "on_blocks (TextBlock t # bs) d = on_blocks bs (on_text t d)"
| "on_blocks (b # bs) d = on_blocks bs d"

section \<open>Observations on the store\<close>

text \<open>
  The mapping from identifiers to records that a result list induces: a later result with
  the same identifier replaces an earlier one, as the assignments of the loop do.
\<close>

fun records_of :: "paper list \<Rightarrow> (string \<rightharpoonup> json)" where
  "records_of [] = Map.empty"
| "records_of (p # ps) = [short_id p \<mapsto> paper_json p] ++ records_of ps"

text \<open>
  The directory a component list names from \<open>cur\<close>, and the store file of a topic:
  \<^verbatim>\<open>papers_info.json\<close> in the directory that the joined path names.
\<close>

fun resolve_comps :: "path \<Rightarrow> string list \<Rightarrow> path" where
  "resolve_comps cur [] = cur"
| "resolve_comps cur (c # cs) =
     (if c = [] \<or> c = ''.'' then resolve_comps cur cs
      else if c = ''..'' then resolve_comps (butlast cur) cs
      else resolve_comps (cur @ [c]) cs)"

definition topic_path :: "string \<Rightarrow> string" where
  "topic_path topic = path_join PAPER_DIR (normalize_topic topic)"

definition store_file :: "world \<Rightarrow> string \<Rightarrow> path" where
  "store_file w topic =
     resolve_comps (if is_abs (topic_path topic) then [] else cwd w) (split_slash (topic_path topic))
       @ [papers_info_json]"

definition store_lookup :: "world \<Rightarrow> string \<Rightarrow> string \<Rightarrow> json option" where
  "store_lookup w topic i =
     (case node_at (files w) (store_file w topic) of
        Some (File (Json (JObj al))) \<Rightarrow> map_of al i
      | _ \<Rightarrow> None)"


definition store_misses :: "fs \<Rightarrow> path \<Rightarrow> argval \<Rightarrow> string \<Rightarrow> bool" where
  "store_misses f root k item =
     (case node_at f (root @ [item, papers_info_json]) of
        Some (File Undecodable) \<Rightarrow> False
      | Some (File (Json v)) \<Rightarrow> py_contains v k = Inr False
      | _ \<Rightarrow> True)"

text \<open>The content of the regular file at a path, if there is one.\<close>

definition file_at :: "fs \<Rightarrow> path \<Rightarrow> content option" where
  "file_at f p = (case node_at f p of Some (File c) \<Rightarrow> Some c | _ \<Rightarrow> None)"

section \<open>Sample inputs\<close>

text \<open>
  Two search results, a later version of the second, a working directory in which nothing
  was searched yet, and the world a successful search leaves.
\<close>

definition paper_a :: paper where
  "paper_a = \<lparr>short_id = ''2401.00001v1'', title = ''Qubits'', authors = [''Ada''],
     summary = ''On qubits.'', pdf_url = ''http://arxiv.org/pdf/2401.00001v1'', published = ''2024-01-01''\<rparr>"

definition paper_b :: paper where
  "paper_b = \<lparr>short_id = ''2401.00002v1'', title = ''Gates'', authors = [''Bob'', ''Eve''],
     summary = ''On gates.'', pdf_url = ''http://arxiv.org/pdf/2401.00002v1'', published = ''2024-01-02''\<rparr>"

definition paper_b2 :: paper where
  "paper_b2 = paper_b\<lparr>title := ''Gates, revised''\<rparr>"

definition home_world :: world where
  "home_world = \<lparr>cwd = [''home''], files = [([''home''], Dir)], stdout = []\<rparr>"

definition after_search :: "world \<Rightarrow> string \<Rightarrow> paper list \<Rightarrow> world" where
  "after_search w topic ps = snd (search_papers w topic (Inr ps))"

text \<open>A provider that finds nothing, and one that finds the two sample papers.\<close>

definition empty_provider :: env where
  "empty_provider = \<lparr>arxiv_results = (\<lambda>topic m. Inr []), llm_create = (\<lambda>n ms. Inl TransportError)\<rparr>"

definition two_results :: env where
  "two_results = \<lparr>arxiv_results = (\<lambda>topic m. Inr [paper_a, paper_b]),
                   llm_create = (\<lambda>n ms. Inl TransportError)\<rparr>"

text \<open>
  A model that asks for one search and then answers, and a session in which nothing was
  done yet.
\<close>

definition scripted :: env where
  "scripted = \<lparr>arxiv_results = (\<lambda>topic m. Inr [paper_a, paper_b]),
     llm_create = (\<lambda>n ms.
        if n = 0 then Inr [TextBlock ''Let me search.'',
                           ToolUse ''toolu_1'' ''search_papers'' [(''topic'', AStr ''quantum computing'')]]
        else if n = 1 then Inr [TextBlock ''I found two papers.'']
        else Inl TransportError)\<rparr>"

definition start :: session where
  "start = \<lparr>world_of = home_world, sent = [], runs = []\<rparr>"



text \<open>A model whose first response asks for two tools at once.\<close>

definition two_tools :: env where
  "two_tools = \<lparr>arxiv_results = (\<lambda>topic m. Inr [paper_a, paper_b]),
     llm_create = (\<lambda>n ms.
        if n = 0 then Inr [ToolUse ''toolu_1'' ''search_papers'' [(''topic'', AStr ''quantum computing'')],
                           ToolUse ''toolu_2'' ''extract_info'' [(''paper_id'', AStr ''2401.00001v1'')]]
        else Inr [TextBlock ''Done.''])\<rparr>"


section \<open>Properties of the metadata store\<close>

subsection \<open>Saving\<close>

lemma add_papers_obj:
  "\<exists>al'. add_papers (JObj al) ids ps = Inr (JObj al', ids @ map short_id ps)
      \<and> map_of al' = map_of al ++ records_of ps"
proof (induction ps arbitrary: al ids)
  case Nil
  then show ?case by simp
next
  case (Cons p ps)
  obtain al' where h: "add_papers (JObj (AList.update (short_id p) (paper_json p) al)) (ids @ [short_id p]) ps
      = Inr (JObj al', (ids @ [short_id p]) @ map short_id ps)"
    "map_of al' = map_of (AList.update (short_id p) (paper_json p) al) ++ records_of ps"
    using Cons.IH by blast
  have "map_of al' = map_of al ++ records_of (p # ps)"
    unfolding h(2) update_conv' by (rule ext) (simp add: map_add_def split: option.splits)
  with h(1) show ?case by simp
qed

lemma records_of_dom: "dom (records_of ps) = short_id ` set ps"
  by (induction ps) auto

lemma records_of_none: "k \<notin> short_id ` set ps \<Longrightarrow> records_of ps k = None"
  using records_of_dom [of ps] by blast

lemma records_of_distinct:
  "distinct (map short_id ps) \<Longrightarrow> p \<in> set ps \<Longrightarrow> records_of ps (short_id p) = Some (paper_json p)"
proof (induction ps)
  case Nil
  then show ?case by simp
next
  case (Cons q ps)
  show ?case
  proof (cases "p = q")
    case True
    with Cons.prems have "records_of ps (short_id p) = None"
      by (intro records_of_none) auto
    with True show ?thesis by (simp add: map_add_def)
  next
    case False
    with Cons have "records_of ps (short_id p) = Some (paper_json p)" by simp
    then show ?thesis by (simp add: map_add_def)
  qed
qed

lemma makedirs_from_dir:
  "makedirs_from f cur cs = (Inr d, f') \<Longrightarrow> d = resolve_comps cur cs"
  by (induction f cur cs rule: makedirs_from.induct)
     (auto split: if_splits option.splits node.splits)

lemma node_at_append_dir:
  "node_at (f @ [(q, Dir)]) p =
     (case node_at f p of Some n \<Rightarrow> Some n | None \<Rightarrow> if p = q then Some Dir else None)"
  by (auto simp: node_at_def map_add_def split: option.splits)

lemma makedirs_from_node:
  "makedirs_from f cur cs = (r, f') \<Longrightarrow>
     node_at f' p = node_at f p \<or> (node_at f p = None \<and> node_at f' p = Some Dir)"
proof (induction f cur cs rule: makedirs_from.induct)
  case (1 f cur)
  then show ?case by simp
next
  case (2 f cur c cs)
  show ?case
  proof (cases "c = [] \<or> c = ''.''")
    case True
    with 2 show ?thesis by simp
  next
    case reg: False
    show ?thesis
    proof (cases "c = ''..''")
      case True
      with 2 reg show ?thesis by simp
    next
      case False
      show ?thesis
      proof (cases "node_at f (cur @ [c])")
        case None
        with 2 reg False have
          "node_at f' p = node_at (f @ [(cur @ [c], Dir)]) p \<or>
           (node_at (f @ [(cur @ [c], Dir)]) p = None \<and> node_at f' p = Some Dir)"
          by simp
        then show ?thesis
          by (auto simp: node_at_append_dir split: option.splits if_splits)
      next
        case (Some n)
        with 2 reg False show ?thesis by (cases n) auto
      qed
    qed
  qed
qed

lemma makedirs_from_keeps:
  "makedirs_from f cur cs = (Inr d, f') \<Longrightarrow> node_at f p = Some n \<Longrightarrow> node_at f' p = Some n"
  using makedirs_from_node [of f cur cs "Inr d" f' p] by auto

lemma makedirs_from_noop:
  "makedirs_from f cur cs = (Inr d, f') \<Longrightarrow> (\<And>p. isdir f' p \<Longrightarrow> isdir g p) \<Longrightarrow>
     makedirs_from g cur cs = (Inr d, g)"
proof (induction f cur cs rule: makedirs_from.induct)
  case (1 f cur)
  then show ?case by simp
next
  case (2 f cur c cs)
  show ?case
  proof (cases "c = [] \<or> c = ''.''")
    case True
    with 2 show ?thesis by simp
  next
    case reg: False
    show ?thesis
    proof (cases "c = ''..''")
      case True
      with 2 reg show ?thesis by simp
    next
      case False
      show ?thesis
      proof (cases "node_at f (cur @ [c])")
        case None
        with 2 reg False have run: "makedirs_from (f @ [(cur @ [c], Dir)]) (cur @ [c]) cs = (Inr d, f')"
          by simp
        have "node_at (f @ [(cur @ [c], Dir)]) (cur @ [c]) = Some Dir"
          using None by (simp add: node_at_append_dir)
        then have "isdir f' (cur @ [c])"
          using makedirs_from_keeps [OF run] by (simp add: isdir_def)
        then have g: "node_at g (cur @ [c]) = Some Dir"
          using "2.prems"(2) by (simp add: isdir_def)
        have "makedirs_from g (cur @ [c]) cs = (Inr d, g)"
          using "2.IH"(3) [OF reg False None run] "2.prems"(2) by blast
        with g reg False show ?thesis by simp
      next
        case (Some n)
        then obtain isd: "n = Dir" and run: "makedirs_from f (cur @ [c]) cs = (Inr d, f')"
          using 2 reg False by (cases n) auto
        have "isdir f' (cur @ [c])"
          using makedirs_from_keeps [OF run] Some isd by (simp add: isdir_def)
        then have g: "node_at g (cur @ [c]) = Some Dir"
          using "2.prems"(2) by (simp add: isdir_def)
        have "makedirs_from g (cur @ [c]) cs = (Inr d, g)"
          using "2.IH"(4) [OF reg False Some isd run] "2.prems"(2) by blast
        with g reg False show ?thesis by simp
      qed
    qed
  qed
qed

lemma makedirs_store_file:
  "makedirs w (topic_path topic) = (Inr d, f1) \<Longrightarrow> store_file w topic = d @ [papers_info_json]"
  using makedirs_from_dir [of "files w" _ "split_slash (topic_path topic)" d f1]
  by (simp add: store_file_def makedirs_def)

lemma search_papers_InrD:
  assumes "search_papers w topic (Inr ps) = (Inr ids, w')"
  obtains f1 d info info' where
    "makedirs w (topic_path topic) = (Inr d, f1)"
    "store_file w topic = d @ [papers_info_json]"
    "load_existing f1 (store_file w topic) = Inr info"
    "add_papers info [] ps = Inr (info', ids)"
    "files w' = AList.update (store_file w topic) (File (Json info')) f1"
    "cwd w' = cwd w"
proof -
  from assms obtain f1 d where m: "makedirs w (topic_path topic) = (Inr d, f1)"
    by (auto simp: search_papers_def topic_path_def Let_def split: sum.splits prod.splits)
  then have d: "store_file w topic = d @ [papers_info_json]"
    using makedirs_from_dir [of "files w" _ "split_slash (topic_path topic)" d f1]
    by (simp add: store_file_def makedirs_def)
  from assms m obtain info where l: "load_existing f1 (d @ [papers_info_json]) = Inr info"
    by (auto simp: search_papers_def topic_path_def Let_def split: sum.splits prod.splits)
  from assms m l obtain info' where a: "add_papers info [] ps = Inr (info', ids)"
    and w': "w' = w\<lparr>files := AList.update (d @ [papers_info_json]) (File (Json info')) f1,
               stdout := stdout w @ [SavedIn (path_join (topic_path topic) papers_info_json)]\<rparr>"
    by (auto simp: search_papers_def topic_path_def Let_def split: sum.splits prod.splits)
  show thesis
    using that [OF m d _ a] l d w' by simp
qed

lemma node_at_update:
  "p \<noteq> [] \<Longrightarrow> node_at (AList.update p n f) q = (if q = p then Some n else node_at f q)"
  by (simp add: node_at_def update_conv')

lemma add_papers_lookup:
  assumes "add_papers info ids ps = Inr (info', ids')" "ps \<noteq> []"
  obtains al al' where "info = JObj al" "info' = JObj al'" "map_of al' = map_of al ++ records_of ps"
proof -
  from assms obtain al where al: "info = JObj al"
    by (cases ps; cases info) auto
  with add_papers_obj [of al ids ps] assms that show thesis by auto
qed


lemma save_twice_lookup:
  assumes s1: "search_papers w topic (Inr r1) = (Inr ids1, w1)"
    and s2: "search_papers w1 topic (Inr r2) = (Inr ids2, w2)"
  shows "(records_of r2 i = Some r \<longrightarrow> store_lookup w2 topic i = Some r) \<and>
         (records_of r2 i = None \<and> records_of r1 i = Some r \<longrightarrow> store_lookup w2 topic i = Some r)"
proof -
  from s1 obtain f1 d info0 info1 where
    m1: "makedirs w (topic_path topic) = (Inr d, f1)" and
    l1: "load_existing f1 (store_file w topic) = Inr info0" and
    a1: "add_papers info0 [] r1 = Inr (info1, ids1)" and
    f1: "files w1 = AList.update (store_file w topic) (File (Json info1)) f1" and
    c1: "cwd w1 = cwd w"
    by (rule search_papers_InrD)
  have sf: "store_file w1 topic = store_file w topic"
    by (simp add: store_file_def c1)
  have ne: "store_file w topic \<noteq> []"
    by (simp add: store_file_def)
  from s2 obtain f2 d2 info1' info2 where
    l2: "load_existing f2 (store_file w topic) = Inr info1'" and
    m2: "makedirs w1 (topic_path topic) = (Inr d2, f2)" and
    a2: "add_papers info1' [] r2 = Inr (info2, ids2)" and
    f2: "files w2 = AList.update (store_file w topic) (File (Json info2)) f2" and
    c2: "cwd w2 = cwd w1"
    by (rule search_papers_InrD) (simp add: sf)
  have notdir: "\<not> isdir f1 (store_file w topic)"
    using l1 by (auto simp: load_existing_def isdir_def)
  have "makedirs_from (files w1) (if is_abs (topic_path topic) then [] else cwd w) (split_slash (topic_path topic))
          = (Inr d, files w1)"
  proof (rule makedirs_from_noop)
    show "makedirs_from (files w) (if is_abs (topic_path topic) then [] else cwd w) (split_slash (topic_path topic))
          = (Inr d, f1)"
      using m1 by (simp add: makedirs_def)
  next
    fix p assume "isdir f1 p"
    with notdir show "isdir (files w1) p"
      by (auto simp: f1 isdir_def node_at_update [OF ne])
  qed
  with m2 have "f2 = files w1"
    unfolding makedirs_def c1 by simp
  with l2 have i1: "info1' = info1"
    by (simp add: f1 load_existing_def node_at_update [OF ne])
  have st: "node_at (files w2) (store_file w2 topic) = Some (File (Json info2))"
    by (simp add: f2 store_file_def c2 c1 node_at_update)
  show ?thesis
  proof (intro conjI impI)
    assume h: "records_of r2 i = Some r"
    then have "r2 \<noteq> []" by auto
    with a2 obtain al al' where "info2 = JObj al'" "map_of al' = map_of al ++ records_of r2"
      by (rule add_papers_lookup)
    with h st show "store_lookup w2 topic i = Some r"
      by (simp add: store_lookup_def map_add_def)
  next
    assume h: "records_of r2 i = None \<and> records_of r1 i = Some r"
    then have "r1 \<noteq> []" by auto
    with a1 obtain al0 al1 where al1: "info1 = JObj al1" "map_of al1 = map_of al0 ++ records_of r1"
      by (rule add_papers_lookup)
    from add_papers_obj [of al1 "[]" r2] a2 i1 al1(1)
    obtain al2 where "info2 = JObj al2" "map_of al2 = map_of al1 ++ records_of r2"
      by auto
    with h al1(2) st show "store_lookup w2 topic i = Some r"
      by (simp add: store_lookup_def map_add_def)
  qed
qed

text \<open>
  C2. When two result lists are saved one after the other under the same topic, the topic
  store afterwards maps every identifier of the second list to the second list's record,
  and every identifier of the first list that the second does not have to the first
  list's record.
\<close>

theorem save_twice_merges:
  assumes s1: "search_papers w topic (Inr r1) = (Inr ids1, w1)"
    and s2: "search_papers w1 topic (Inr r2) = (Inr ids2, w2)"
  shows "(records_of r2 i = Some r \<longrightarrow> store_lookup w2 topic i = Some r) \<and>
         (records_of r2 i = None \<and> records_of r1 i = Some r \<longrightarrow> store_lookup w2 topic i = Some r)"
  using s1 s2 by (rule save_twice_lookup)

theorem save_twice_merges_witness:
  "search_papers home_world ''Quantum Computing'' (Inr [paper_a, paper_b]) =
     (Inr [''2401.00001v1'', ''2401.00002v1''],
          after_search home_world ''Quantum Computing'' [paper_a, paper_b]) \<and>
   search_papers (after_search home_world ''Quantum Computing'' [paper_a, paper_b])
       ''Quantum Computing'' (Inr [paper_b2]) =
     (Inr [''2401.00002v1''],
          after_search (after_search home_world ''Quantum Computing'' [paper_a, paper_b])
            ''Quantum Computing'' [paper_b2]) \<and>
   store_lookup
     (after_search (after_search home_world ''Quantum Computing'' [paper_a, paper_b])
        ''Quantum Computing'' [paper_b2])
     ''Quantum Computing'' ''2401.00002v1'' = Some (paper_json paper_b2) \<and>
   store_lookup
     (after_search (after_search home_world ''Quantum Computing'' [paper_a, paper_b])
        ''Quantum Computing'' [paper_b2])
     ''Quantum Computing'' ''2401.00001v1'' = Some (paper_json paper_a)"
proof -
  let ?w1 = "after_search home_world ''Quantum Computing'' [paper_a, paper_b]"
  let ?w2 = "after_search ?w1 ''Quantum Computing'' [paper_b2]"
  have s1: "search_papers home_world ''Quantum Computing'' (Inr [paper_a, paper_b]) =
      (Inr [''2401.00001v1'', ''2401.00002v1''], ?w1)"
    by code_simp
  have s2: "search_papers ?w1 ''Quantum Computing'' (Inr [paper_b2]) = (Inr [''2401.00002v1''], ?w2)"
    by code_simp
  have r: "records_of [paper_b2] ''2401.00002v1'' = Some (paper_json paper_b2)"
    "records_of [paper_b2] ''2401.00001v1'' = None"
    "records_of [paper_a, paper_b] ''2401.00001v1'' = Some (paper_json paper_a)"
    by code_simp+
  from save_twice_merges [OF s1 s2, of "''2401.00002v1''" "paper_json paper_b2"]
    save_twice_merges [OF s1 s2, of "''2401.00001v1''" "paper_json paper_a"] r s1 s2
  show ?thesis by blast
qed

subsection \<open>Looking up\<close>

lemma split_slash_nonempty: "split_slash s \<noteq> []"
  by (induction s) (auto split: list.splits)










lemma scan_items_miss:
  "store_misses f root k item \<Longrightarrow>
     \<exists>os'. scan_items f root k os (item # items) = scan_items f root k os' items"
  by (auto simp: store_misses_def isfile_def split: option.splits node.splits content.splits bool.splits sum.splits)

lemma scan_items_all_miss:
  "(\<And>c. c \<in> set items \<Longrightarrow> store_misses f root k c) \<Longrightarrow>
     \<exists>os'. scan_items f root k os items = (Inr None, os')"
proof (induction items arbitrary: os)
  case Nil
  then show ?case by simp
next
  case (Cons c items)
  then obtain os1 where "scan_items f root k os (c # items) = scan_items f root k os1 items"
    using scan_items_miss [of f root k c os items] by auto
  with Cons.IH [of os1] Cons.prems show ?case by auto
qed


lemma store_misses_after_makedirs:
  assumes "makedirs_from f cur cs = (Inr d, f1)" "store_misses f root k c"
    "root @ [c, papers_info_json] \<noteq> sf" "sf \<noteq> []"
  shows "store_misses (AList.update sf n f1) root k c"
proof -
  have "node_at (AList.update sf n f1) (root @ [c, papers_info_json]) = node_at f1 (root @ [c, papers_info_json])"
    using assms(3,4) by (simp add: node_at_update)
  moreover have "node_at f1 (root @ [c, papers_info_json]) = node_at f (root @ [c, papers_info_json]) \<or>
      node_at f1 (root @ [c, papers_info_json]) = Some Dir"
    using makedirs_from_node [OF assms(1), of "root @ [c, papers_info_json]"] by auto
  ultimately show ?thesis
    using assms(2) by (auto simp: store_misses_def)
qed


















text \<open>
  A topic with a slash is stored in a nested directory, which the loop over the entries of
  \<^verbatim>\<open>papers\<close> does not reach.
\<close>

lemma find_misses_nested_topic:
  "search_papers home_world ''TCP/IP'' (Inr [paper_a]) =
     (Inr [''2401.00001v1''], after_search home_world ''TCP/IP'' [paper_a]) \<and>
   extract_info (after_search home_world ''TCP/IP'' [paper_a]) (AStr ''2401.00001v1'') =
     (Inr (Str ''There's no saved information related to paper 2401.00001v1.''),
          after_search home_world ''TCP/IP'' [paper_a])"
  by code_simp


text \<open>
  C3. For a paper identifier that is in no topic store, \<^verbatim>\<open>extract_info\<close> is claimed to
  return the not-found sentence and never to raise, whatever the state of the papers root
  directory, also when the root directory is missing. On a file system that has no
  \<^verbatim>\<open>papers\<close> directory (the state before the first search) \<^verbatim>\<open>os.listdir(PAPER_DIR)\<close>,
  which is outside the \<^verbatim>\<open>try\<close>, raises \<^verbatim>\<open>FileNotFoundError\<close>: the function raises
  instead of returning the sentence its docstring promises.
\<close>

theorem extract_info_root_missing:
  "extract_info \<lparr>cwd = [''home''], files = [([''home''], Dir)], stdout = []\<rparr>
     (AStr ''9999.99999'') =
   (Inl FileNotFoundError, \<lparr>cwd = [''home''], files = [([''home''], Dir)], stdout = []\<rparr>)"
  by (simp add: extract_info_def listdir_def node_at_def PAPER_DIR_def)

section \<open>Properties of the tool dispatcher\<close>

text \<open>
  C8. How \<^verbatim>\<open>execute_tool\<close> turns the result of a registered tool into a string. Only
  \<^verbatim>\<open>None\<close> becomes the placeholder sentence; a list, the empty one too, becomes its
  elements joined with a comma and a space; a dict becomes \<^verbatim>\<open>json.dumps\<close> of it; a string
  stays as it is.
\<close>

theorem execute_tool_normalizes:
  assumes "registry tool_name = Some f" "f e w tool_args = (Inr res, w')"
  shows "(res = PNone \<longrightarrow> execute_tool registry e w tool_name tool_args = (Inr (Str no_results), w')) \<and>
         (\<forall>xs. res = PList xs \<longrightarrow>
            execute_tool registry e w tool_name tool_args = (Inr (Str (comma_join xs)), w')) \<and>
         (\<forall>al. res = PDict al \<longrightarrow>
            execute_tool registry e w tool_name tool_args = (Inr (JsonDumps (JObj al)), w')) \<and>
         (\<forall>s. res = PStr s \<longrightarrow> execute_tool registry e w tool_name tool_args = (Inr s, w'))"
  using assms by (simp add: execute_tool_def)

theorem execute_tool_normalizes_witness:
  "mapping_tool_function ''extract_info'' = Some call_extract_info \<and>
   call_extract_info empty_provider (after_search home_world ''quantum computing'' [paper_a])
       [(''paper_id'', AStr ''9999.99999'')] =
     (Inr (PStr (Str ''There's no saved information related to paper 9999.99999.'')),
      after_search home_world ''quantum computing'' [paper_a]) \<and>
   execute_tool mapping_tool_function empty_provider
       (after_search home_world ''quantum computing'' [paper_a]) ''extract_info''
       [(''paper_id'', AStr ''9999.99999'')] =
     (Inr (Str ''There's no saved information related to paper 9999.99999.''),
      after_search home_world ''quantum computing'' [paper_a])"
proof -
  have r: "mapping_tool_function ''extract_info'' = Some call_extract_info"
    by (simp add: mapping_tool_function_def)
  have c: "call_extract_info empty_provider (after_search home_world ''quantum computing'' [paper_a])
       [(''paper_id'', AStr ''9999.99999'')] =
     (Inr (PStr (Str ''There's no saved information related to paper 9999.99999.'')),
      after_search home_world ''quantum computing'' [paper_a])"
    by code_simp
  from execute_tool_normalizes [where registry = mapping_tool_function and f = call_extract_info, OF r c] r c
  show ?thesis
    by blast
qed

text \<open>
  The claim as stated has an empty result become the placeholder as well. A search that
  finds nothing returns the empty list, and the string sent back is the empty string.
\<close>

theorem execute_tool_empty_result:
  "execute_tool mapping_tool_function empty_provider home_world ''search_papers''
     [(''topic'', AStr ''perpetual motion'')] =
     (Inr (Str ''''), after_search home_world ''perpetual motion'' []) \<and>
   Str '''' \<noteq> Str no_results"
  by code_simp

lemma add_papers_ids:
  "add_papers info ids ps = Inr (info', ids') \<Longrightarrow> ids' = ids @ map short_id ps"
  by (induction info ids ps rule: add_papers.induct) (auto split: json.splits)

lemma file_at_makedirs_from:
  "makedirs_from f cur cs = (r, f') \<Longrightarrow> file_at f' p = file_at f p"
  using makedirs_from_node [of f cur cs r f' p] by (auto simp: file_at_def)

lemma file_at_update:
  "sf \<noteq> [] \<Longrightarrow> p \<noteq> sf \<Longrightarrow> file_at (AList.update sf n f) p = file_at f p"
  by (simp add: file_at_def node_at_update)

lemma search_papers_frame:
  assumes "search_papers w topic res = (r, w')" "p \<noteq> store_file w topic"
  shows "file_at (files w') p = file_at (files w) p"
proof -
  obtain r1 f1 where m: "makedirs w (topic_path topic) = (r1, f1)"
    by (cases "makedirs w (topic_path topic)")
  then have f1: "file_at f1 p = file_at (files w) p"
    by (simp add: makedirs_def file_at_makedirs_from)
  show ?thesis
  proof (cases r1)
    case (Inl x)
    with assms(1) m f1 show ?thesis
      by (auto simp: search_papers_def topic_path_def Let_def)
  next
    case (Inr d)
    with m have sf: "store_file w topic = d @ [papers_info_json]"
      by (simp add: makedirs_store_file)
    with assms(2) have "file_at (AList.update (d @ [papers_info_json]) n f1) p = file_at f1 p" for n
      by (simp add: file_at_update)
    with assms(1) m f1 Inr show ?thesis
      by (auto simp: search_papers_def topic_path_def Let_def split: sum.splits prod.splits)
  qed
qed

lemma search_papers_returns:
  assumes "search_papers w topic res = (Inr ids, w')"
  shows "\<exists>ps v. res = Inr ps \<and> ids = map short_id ps \<and>
           file_at (files w') (store_file w topic) = Some (Json v)"
proof -
  from assms obtain ps where res: "res = Inr ps"
    by (cases res) (auto simp: search_papers_def Let_def split: sum.splits prod.splits)
  with assms obtain f1 d info info' where
    sf: "store_file w topic = d @ [papers_info_json]" and
    a: "add_papers info [] ps = Inr (info', ids)" and
    fw: "files w' = AList.update (store_file w topic) (File (Json info')) f1"
    by (auto elim: search_papers_InrD)
  from a have "ids = map short_id ps"
    by (auto dest: add_papers_ids)
  moreover have "file_at (files w') (store_file w topic) = Some (Json info')"
    by (simp add: fw sf file_at_def node_at_update)
  ultimately show ?thesis using res by blast
qed

text \<open>
  C9. Dispatching \<^verbatim>\<open>search_papers\<close> with a topic. Whatever the outcome, no regular file
  other than the store file of the normalized topic is created or changed (directories may
  be made); and when a string is returned, it is the identifiers the search found, joined
  with a comma and a space, and the store file then holds JSON.
\<close>

theorem dispatch_search_papers:
  assumes "map_of tool_args ''topic'' = Some (AStr topic)"
    and "execute_tool mapping_tool_function e w ''search_papers'' tool_args = (r, w')"
  shows "(\<forall>p. p \<noteq> store_file w topic \<longrightarrow> file_at (files w') p = file_at (files w) p) \<and>
         (\<forall>s. r = Inr s \<longrightarrow>
            (\<exists>ps v. arxiv_results e topic (max_results_arg tool_args) = Inr ps \<and>
               s = Str (comma_join (map short_id ps)) \<and>
               file_at (files w') (store_file w topic) = Some (Json v)))"
proof (cases "list_all (\<lambda>k. k = ''topic'' \<or> k = ''max_results'') (map fst tool_args)")
  case False
  with assms show ?thesis
    by (auto simp: execute_tool_def mapping_tool_function_def call_search_papers_def)
next
  case True
  obtain r1 w1 where sp: "search_papers w topic (arxiv_results e topic (max_results_arg tool_args)) = (r1, w1)"
    by (cases "search_papers w topic (arxiv_results e topic (max_results_arg tool_args))")
  with True assms have w1: "w' = w1" and r: "r = map_sum id (\<lambda>ids. Str (comma_join ids)) r1"
    by (auto simp: execute_tool_def mapping_tool_function_def call_search_papers_def split: sum.splits)
  show ?thesis
  proof (intro conjI allI impI)
    fix p assume "p \<noteq> store_file w topic"
    with sp w1 show "file_at (files w') p = file_at (files w) p"
      by (simp add: search_papers_frame)
  next
    fix s assume "r = Inr s"
    with r obtain ids where ids: "r1 = Inr ids" "s = Str (comma_join ids)"
      by (cases r1) auto
    with sp w1 have "search_papers w topic (arxiv_results e topic (max_results_arg tool_args)) = (Inr ids, w')"
      by simp
    from search_papers_returns [OF this] ids(2)
    show "\<exists>ps v. arxiv_results e topic (max_results_arg tool_args) = Inr ps \<and>
               s = Str (comma_join (map short_id ps)) \<and>
               file_at (files w') (store_file w topic) = Some (Json v)"
      by blast
  qed
qed

theorem dispatch_search_papers_witness:
  "map_of [(''topic'', AStr ''quantum computing'')] ''topic'' = Some (AStr ''quantum computing'') \<and>
   execute_tool mapping_tool_function two_results home_world ''search_papers''
       [(''topic'', AStr ''quantum computing'')] =
     (Inr (Str ''2401.00001v1, 2401.00002v1''),
      after_search home_world ''quantum computing'' [paper_a, paper_b]) \<and>
   file_at (files (after_search home_world ''quantum computing'' [paper_a, paper_b])) [''home''] =
     file_at (files home_world) [''home''] \<and>
   (\<exists>v. file_at (files (after_search home_world ''quantum computing'' [paper_a, paper_b]))
          (store_file home_world ''quantum computing'') = Some (Json v))"
proof -
  have a: "map_of [(''topic'', AStr ''quantum computing'')] ''topic'' = Some (AStr ''quantum computing'')"
    by simp
  have x: "execute_tool mapping_tool_function two_results home_world ''search_papers''
       [(''topic'', AStr ''quantum computing'')] =
     (Inr (Str ''2401.00001v1, 2401.00002v1''),
      after_search home_world ''quantum computing'' [paper_a, paper_b])"
    by code_simp
  have ne: "[''home''] \<noteq> store_file home_world ''quantum computing''"
    by code_simp
  from dispatch_search_papers [OF a x] a x ne show ?thesis
    by blast
qed

section \<open>Properties of the conversation driver\<close>

lemma while_process_stopped: "\<not> running d \<Longrightarrow> while_process e d = Some (None, d)"
  by (subst while_process.simps) simp

lemma while_process_round:
  "running d \<Longrightarrow>
   for_content e (d\<lparr>cur_buf := Suc (cur_buf d), buffers := (buffers d)(Suc (cur_buf d) := [])\<rparr>) (response d) = (None, d') \<Longrightarrow>
   while_process e d = while_process e d'"
  by (subst while_process.simps) simp


lemma requests_on_response: "requests (on_response resp d) = requests d"
  by (auto simp: on_response_def print_line_def split: list.splits block.splits)









lemma for_content_no_tool:
  "list_all (\<lambda>b. \<not> is_tool_use b) pre \<Longrightarrow>
     for_content e d (pre @ rest) = for_content e (on_blocks pre d) rest"
proof (induction pre arbitrary: d)
  case Nil
  then show ?case by simp
next
  case (Cons b pre)
  then show ?case by (cases b) (simp_all add: is_tool_use_def)
qed

lemma on_text_fields:
  "requests (on_text t d) = requests d"
  "tool_runs (on_text t d) = tool_runs d"
  "messages (on_text t d) = messages d"
  "cur_buf (on_text t d) = cur_buf d"
  "response (on_text t d) = response d"
  "dworld (on_text t d) = (dworld d)\<lparr>stdout := stdout (dworld d) @ [Text t]\<rparr>"
  "buffers (on_text t d) = (buffers d)(cur_buf d := buffers d (cur_buf d) @ [TextBlock t])"
  "running (on_text t d) = (running d \<and> length (response d) \<noteq> 1)"
  by (simp_all add: on_text_def buffer_append_def print_line_def Let_def)

lemma on_blocks_fields:
  "requests (on_blocks bs d) = requests d"
  "tool_runs (on_blocks bs d) = tool_runs d"
  "messages (on_blocks bs d) = messages d"
  "cur_buf (on_blocks bs d) = cur_buf d"
  "response (on_blocks bs d) = response d"
  by (induction bs d rule: on_blocks.induct) (simp_all add: on_text_fields)

lemma on_blocks_world:
  "dworld (on_blocks bs d) = (dworld d)\<lparr>stdout := stdout (dworld d) @ printed bs\<rparr>"
  by (induction bs d rule: on_blocks.induct) (simp_all add: on_text_fields)

lemma on_blocks_buffers:
  "buffers (on_blocks bs d) = (buffers d)(cur_buf d := buffers d (cur_buf d) @ text_blocks bs)"
  by (induction bs d rule: on_blocks.induct) (auto simp: on_text_fields on_blocks_fields fun_eq_iff)

lemma on_blocks_running:
  "running (on_blocks bs d) = (running d \<and> (length (response d) \<noteq> 1 \<or> text_blocks bs = []))"
  by (induction bs d rule: on_blocks.induct) (auto simp: on_text_fields on_blocks_fields)

lemma for_content_only_text:
  "list_all (\<lambda>b. \<not> is_tool_use b) bs \<Longrightarrow> for_content e d bs = (None, on_blocks bs d)"
  using for_content_no_tool [of bs e d "[]"] by simp

lemma before_tool_fields:
  "requests (before_tool i n a d) = requests d"
  "cur_buf (before_tool i n a d) = cur_buf d"
  "response (before_tool i n a d) = response d"
  "running (before_tool i n a d) = running d"
  "messages (before_tool i n a d) = messages d @ [HAssistant (cur_buf d)]"
  "buffers (before_tool i n a d) = (buffers d)(cur_buf d := buffers d (cur_buf d) @ [ToolUse i n a])"
  "dworld (before_tool i n a d) = (dworld d)\<lparr>stdout := stdout (dworld d) @ [CallingTool n a]\<rparr>"
  "tool_runs (before_tool i n a d) =
     tool_runs d @ [(i, map (wire ((buffers d)(cur_buf d := buffers d (cur_buf d) @ [ToolUse i n a])))
                          (messages d @ [HAssistant (cur_buf d)]))]"
  by (simp_all add: before_tool_def buffer_append_def print_line_def sent_messages_def Let_def)

text \<open>
  C7. A first response with one tool call among its blocks, the tool returning, and a
  second response that is one text block: the query ends after two model calls, one tool
  run and one tool-result message.
\<close>

theorem one_tool_then_text:
  assumes first: "llm_create e (length (sent s)) [UserText query] = Inr (pre @ ToolUse i name args # post)"
    and pre: "list_all (\<lambda>b. \<not> is_tool_use b) pre"
    and post: "list_all (\<lambda>b. \<not> is_tool_use b) post"
    and tool: "execute_tool mapping_tool_function e
                 ((world_of s)\<lparr>stdout := stdout (world_of s) @ printed pre @ [CallingTool name args]\<rparr>)
                 name args = (Inr result, w)"
    and second: "llm_create e (Suc (length (sent s)))
                   [UserText query, AssistantTurn (text_blocks pre @ [ToolUse i name args]),
                    ToolResult i result] = Inr [TextBlock t]"
  shows "\<exists>d. process_query e s query = Some (None, d) \<and>
           requests d = sent s @
             [[UserText query],
              [UserText query, AssistantTurn (text_blocks pre @ [ToolUse i name args]),
               ToolResult i result]] \<and>
           tool_runs d = runs s @
             [(i, [UserText query, AssistantTurn (text_blocks pre @ [ToolUse i name args])])] \<and>
           messages d = [HUser query, HAssistant 1, HResult i result] \<and>
           dworld d = w\<lparr>stdout := stdout w @ Text t # printed post\<rparr> \<and>
           \<not> running d"
proof -
  let ?resp = "pre @ ToolUse i name args # post"
  let ?use = "ToolUse i name args"
  let ?d0 = "\<lparr>dworld = world_of s, requests = sent s @ [[UserText query]], tool_runs = runs s,
               messages = [HUser query], buffers = (\<lambda>n. []), cur_buf = 0,
               response = ?resp, running = True\<rparr>"
  let ?d1 = "?d0\<lparr>cur_buf := Suc (cur_buf ?d0), buffers := (buffers ?d0)(Suc (cur_buf ?d0) := [])\<rparr>"
  let ?d2 = "on_blocks pre ?d1"
  let ?d3 = "before_tool i name args ?d2"
  let ?d4 = "after_tool i result w ?d3"
  let ?d5 = "?d4\<lparr>requests := requests ?d4 @ [sent_messages ?d4]\<rparr>"
  let ?d6 = "on_response [TextBlock t] ?d5"
  let ?d7 = "on_blocks post ?d6"
  have pq: "process_query e s query = while_process e ?d0"
    using first by (simp add: process_query_def messages_create_def sent_messages_def wire_def)
  have w3: "dworld ?d3 =
      (world_of s)\<lparr>stdout := stdout (world_of s) @ printed pre @ [CallingTool name args]\<rparr>"
    by (simp add: before_tool_fields on_blocks_world)
  have b3: "buffers ?d3 (Suc 0) = text_blocks pre @ [?use]"
    by (simp add: before_tool_fields on_blocks_fields on_blocks_buffers)
  have m3: "messages ?d3 = [HUser query, HAssistant (Suc 0)]"
    by (simp add: before_tool_fields on_blocks_fields)
  have r3: "requests ?d3 = sent s @ [[UserText query]]"
    by (simp add: before_tool_fields on_blocks_fields)
  have t3: "tool_runs ?d3 = runs s @ [(i, [UserText query, AssistantTurn (text_blocks pre @ [?use])])]"
    by (simp add: before_tool_fields on_blocks_fields on_blocks_buffers wire_def)
  have s4: "sent_messages ?d4 =
      [UserText query, AssistantTurn (text_blocks pre @ [?use]), ToolResult i result]"
    using b3 m3 by (simp add: sent_messages_def after_tool_def wire_def)
  have r4: "requests ?d4 = sent s @ [[UserText query]]"
    using r3 by (simp add: after_tool_def)
  have mc: "messages_create e ?d4 = (Inr [TextBlock t], ?d5)"
    using second unfolding messages_create_def s4 r4 by simp
  have ex: "execute_tool mapping_tool_function e (dworld ?d3) name args = (Inr result, w)"
    using tool unfolding w3 .
  have "for_content e ?d1 ?resp = for_content e ?d2 (?use # post)"
    by (rule for_content_no_tool [OF pre])
  also have "\<dots> = for_content e ?d6 post"
    using ex mc by simp
  also have "\<dots> = (None, ?d7)"
    by (rule for_content_only_text [OF post])
  finally have fc: "for_content e ?d1 (response ?d0) = (None, ?d7)"
    by simp
  have run6: "\<not> running ?d6"
    by (simp add: on_response_def print_line_def)
  then have stop: "\<not> running ?d7"
    by (simp add: on_blocks_running)
  have "while_process e ?d0 = while_process e ?d7"
    by (rule while_process_round [OF _ fc]) simp
  with pq stop have res: "process_query e s query = Some (None, ?d7)"
    by (simp add: while_process_stopped)
  have r7: "requests ?d7 = sent s @
             [[UserText query],
              [UserText query, AssistantTurn (text_blocks pre @ [?use]), ToolResult i result]]"
    using r4 s4 by (simp add: on_blocks_fields requests_on_response)
  have t7: "tool_runs ?d7 = runs s @ [(i, [UserText query, AssistantTurn (text_blocks pre @ [?use])])]"
    using t3 by (simp add: on_blocks_fields on_response_def print_line_def after_tool_def)
  have m7: "messages ?d7 = [HUser query, HAssistant 1, HResult i result]"
    using m3 by (simp add: on_blocks_fields on_response_def print_line_def after_tool_def)
  have w7: "dworld ?d7 = w\<lparr>stdout := stdout w @ Text t # printed post\<rparr>"
    by (simp add: on_blocks_world on_response_def print_line_def after_tool_def)
  from res r7 t7 m7 w7 stop show ?thesis
    by blast
qed

theorem one_tool_then_text_witness:
  "llm_create scripted (length (sent start)) [UserText ''papers on quantum computing?''] =
     Inr ([TextBlock ''Let me search.''] @
          ToolUse ''toolu_1'' ''search_papers'' [(''topic'', AStr ''quantum computing'')] # []) \<and>
   (\<exists>d. process_query scripted start ''papers on quantum computing?'' = Some (None, d) \<and>
        requests d = sent start @
          [[UserText ''papers on quantum computing?''],
           [UserText ''papers on quantum computing?'',
            AssistantTurn
              [TextBlock ''Let me search.'',
               ToolUse ''toolu_1'' ''search_papers'' [(''topic'', AStr ''quantum computing'')]],
            ToolResult ''toolu_1'' (Str ''2401.00001v1, 2401.00002v1'')]] \<and>
        tool_runs d = runs start @
          [(''toolu_1'',
            [UserText ''papers on quantum computing?'',
             AssistantTurn
               [TextBlock ''Let me search.'',
                ToolUse ''toolu_1'' ''search_papers'' [(''topic'', AStr ''quantum computing'')]]])] \<and>
        messages d =
          [HUser ''papers on quantum computing?'', HAssistant 1,
           HResult ''toolu_1'' (Str ''2401.00001v1, 2401.00002v1'')] \<and>
        \<not> running d)"
proof -
  let ?q = "''papers on quantum computing?''"
  let ?args = "[(''topic'', AStr ''quantum computing'')]"
  let ?pre = "[TextBlock ''Let me search.'']"
  let ?w0 = "(world_of start)\<lparr>stdout := stdout (world_of start) @ printed ?pre @
                [CallingTool ''search_papers'' ?args]\<rparr>"
  let ?res = "Str ''2401.00001v1, 2401.00002v1''"
  have first: "llm_create scripted (length (sent start)) [UserText ?q] =
      Inr (?pre @ ToolUse ''toolu_1'' ''search_papers'' ?args # [])"
    by (simp add: scripted_def start_def)
  have pre: "list_all (\<lambda>b. \<not> is_tool_use b) ?pre"
    by (simp add: is_tool_use_def)
  have post: "list_all (\<lambda>b. \<not> is_tool_use b) []"
    by simp
  have "fst (execute_tool mapping_tool_function scripted ?w0 ''search_papers'' ?args) = Inr ?res"
    by code_simp
  then have tool: "execute_tool mapping_tool_function scripted ?w0 ''search_papers'' ?args =
      (Inr ?res, snd (execute_tool mapping_tool_function scripted ?w0 ''search_papers'' ?args))"
    by (simp add: prod_eq_iff)
  have second: "llm_create scripted (Suc (length (sent start)))
      [UserText ?q, AssistantTurn (text_blocks ?pre @ [ToolUse ''toolu_1'' ''search_papers'' ?args]),
       ToolResult ''toolu_1'' ?res] = Inr [TextBlock ''I found two papers.'']"
    by (simp add: scripted_def start_def)
  from one_tool_then_text [OF first pre post tool second] first show ?thesis
    by auto
qed

text \<open>
  C6. Every tool result is to follow the assistant turn with its request, and that turn is
  to be appended to the history once, before any of its tools runs. The \<^verbatim>\<open>tool_use\<close>
  branch appends \<^verbatim>\<open>assistant_content\<close> for each tool call it meets. With two tool calls in
  one response the turn is in the history twice at the end; the first tool runs when the
  turn holds the first call alone, and the second append comes after the first tool ran
  and its result was appended.
\<close>

theorem two_tool_uses_append_turn_twice:
  "map_option (\<lambda>(r, d). (r, sent_messages d, tool_runs d))
     (process_query two_tools start ''find and show'') =
   Some (None,
     [UserText ''find and show'',
      AssistantTurn
        [ToolUse ''toolu_1'' ''search_papers'' [(''topic'', AStr ''quantum computing'')],
         ToolUse ''toolu_2'' ''extract_info'' [(''paper_id'', AStr ''2401.00001v1'')]],
      ToolResult ''toolu_1'' (Str ''2401.00001v1, 2401.00002v1''),
      AssistantTurn
        [ToolUse ''toolu_1'' ''search_papers'' [(''topic'', AStr ''quantum computing'')],
         ToolUse ''toolu_2'' ''extract_info'' [(''paper_id'', AStr ''2401.00001v1'')]],
      ToolResult ''toolu_2'' (JsonDumps (paper_json paper_a))],
     [(''toolu_1'',
       [UserText ''find and show'',
        AssistantTurn
          [ToolUse ''toolu_1'' ''search_papers'' [(''topic'', AStr ''quantum computing'')]]]),
      (''toolu_2'',
       [UserText ''find and show'',
        AssistantTurn
          [ToolUse ''toolu_1'' ''search_papers'' [(''topic'', AStr ''quantum computing'')],
           ToolUse ''toolu_2'' ''extract_info'' [(''paper_id'', AStr ''2401.00001v1'')]],
        ToolResult ''toolu_1'' (Str ''2401.00001v1, 2401.00002v1''),
        AssistantTurn
          [ToolUse ''toolu_1'' ''search_papers'' [(''topic'', AStr ''quantum computing'')],
           ToolUse ''toolu_2'' ''extract_info'' [(''paper_id'', AStr ''2401.00001v1'')]]])])"
  by code_simp







end
